theory Spec2Isabelle
  imports Main "HOL-Library.Sublist"
begin

section \<open>Go strings and the library functions the middleware calls\<close>

text \<open>
  A Go \<^verbatim>\<open>string\<close> and a \<^verbatim>\<open>[]byte\<close> are both sequences of bytes, and the conversions
  \<^verbatim>\<open>[]byte(s)\<close> between them keep the bytes. Both are modelled as \<^typ>\<open>string\<close>, a list of
  8-bit characters, so the conversions are the identity.
\<close>

type_synonym bytes = string

text \<open>
  \<^verbatim>\<open>strings.Split(s, sep)\<close> for a separator of one byte, the only way the middleware calls
  it: the substrings between the separators, one more than there are separators, so
  the empty string gives one empty substring.
\<close>

fun strings_Split :: "string \<Rightarrow> char \<Rightarrow> string list" where
  "strings_Split [] sep = [[]]"
| "strings_Split (c # cs) sep =
     (if c = sep then [] # strings_Split cs sep
      else (case strings_Split cs sep of
              [] \<Rightarrow> [[c]]
            | p # ps \<Rightarrow> (c # p) # ps))"

text \<open>\<^verbatim>\<open>strings.HasPrefix(s, prefix)\<close> and \<^verbatim>\<open>strings.TrimPrefix(s, prefix)\<close>.\<close>

definition strings_HasPrefix :: "string \<Rightarrow> string \<Rightarrow> bool" where
  "strings_HasPrefix s p = prefix p s"

definition strings_TrimPrefix :: "string \<Rightarrow> string \<Rightarrow> string" where
  "strings_TrimPrefix s p = (if strings_HasPrefix s p then drop (length p) s else s)"

subsection \<open>\<^verbatim>\<open>encoding/base64\<close>, \<^verbatim>\<open>StdEncoding\<close>\<close>

definition encodeStd :: string where
  "encodeStd = ''ABCDEFGHIJKLMNOPQRSTUVWXYZabcdefghijklmnopqrstuvwxyz0123456789+/''"

definition padChar :: char where
  "padChar = CHR ''=''"

fun index_of :: "char \<Rightarrow> string \<Rightarrow> nat option" where
  "index_of c [] = None"
| "index_of c (x # xs) = (if c = x then Some 0 else map_option Suc (index_of c xs))"

text \<open>The decode map of the encoding: the six-bit value of an alphabet character.\<close>

definition decodeMap :: "char \<Rightarrow> nat option" where
  "decodeMap c = index_of c encodeStd"

definition sextet :: "nat \<Rightarrow> char" where
  "sextet n = encodeStd ! (n mod 64)"

definition byte_of :: "nat \<Rightarrow> char" where
  "byte_of n = char_of (n mod 256)"

definition val_of :: "char \<Rightarrow> nat" where
  "val_of c = of_char c"

text \<open>
  \<^verbatim>\<open>StdEncoding.EncodeToString\<close>: three bytes give four characters; one or two bytes left
  over give two or three characters and padding up to four.
\<close>

fun EncodeToString :: "bytes \<Rightarrow> string" where
  "EncodeToString [] = []"
| "EncodeToString [a] =
     [sextet (val_of a div 4), sextet ((val_of a mod 4) * 16), padChar, padChar]"
| "EncodeToString [a, b] =
     [sextet (val_of a div 4), sextet ((val_of a mod 4) * 16 + val_of b div 16),
      sextet ((val_of b mod 16) * 4), padChar]"
| "EncodeToString (a # b # c # rest) =
     [sextet (val_of a div 4), sextet ((val_of a mod 4) * 16 + val_of b div 16),
      sextet ((val_of b mod 16) * 4 + val_of c div 64), sextet (val_of c mod 64)]
     @ EncodeToString rest"

text \<open>
  \<^verbatim>\<open>StdEncoding.DecodeString\<close>. The decoder skips carriage returns and line feeds wherever
  they stand, reads the rest in groups of four characters, wants the padding of the
  last group complete and nothing after it, and does not check the unused low bits of
  a padded group (the encoding is not strict). \<open>None\<close> is the \<^verbatim>\<open>CorruptInputError\<close>.
\<close>

fun decodeQuanta :: "string \<Rightarrow> bytes option" where
  "decodeQuanta [] = Some []"
| "decodeQuanta (a # b # c # d # rest) =
     (case (decodeMap a, decodeMap b) of
        (Some x, Some y) \<Rightarrow>
          (if c = padChar then
             (if d = padChar \<and> rest = [] then Some [byte_of (x * 4 + y div 16)] else None)
           else
             (case decodeMap c of
                None \<Rightarrow> None
              | Some z \<Rightarrow>
                  (if d = padChar then
                     (if rest = []
                      then Some [byte_of (x * 4 + y div 16), byte_of (y * 16 + z div 4)]
                      else None)
                   else
                     (case decodeMap d of
                        None \<Rightarrow> None
                      | Some w \<Rightarrow>
                          map_option
                            (\<lambda>r. [byte_of (x * 4 + y div 16), byte_of (y * 16 + z div 4),
                                  byte_of (z * 64 + w)] @ r)
                            (decodeQuanta rest)))))
      | _ \<Rightarrow> None)"
| "decodeQuanta _ = None"

definition DecodeString :: "string \<Rightarrow> bytes option" where
  "DecodeString s = decodeQuanta (filter (\<lambda>c. c \<noteq> CHR 0x0A \<and> c \<noteq> CHR 0x0D) s)"

subsection \<open>\<^verbatim>\<open>net/http\<close>: header lookup and the request\<close>

definition validHeaderFieldByte :: "char \<Rightarrow> bool" where
  "validHeaderFieldByte c =
     (let v = val_of c in
      (48 \<le> v \<and> v \<le> 57) \<or> (65 \<le> v \<and> v \<le> 90) \<or> (97 \<le> v \<and> v \<le> 122) \<or>
      v \<in> set [0x21, 0x23, 0x24, 0x25, 0x26, 0x27, 0x2A, 0x2B, 0x2D, 0x2E, 0x5E, 0x5F,
                0x60, 0x7C, 0x7E])"

fun canonicalCase :: "bool \<Rightarrow> string \<Rightarrow> string" where
  "canonicalCase upper [] = []"
| "canonicalCase upper (c # cs) =
     (let v = val_of c;
          c' = (if upper \<and> 97 \<le> v \<and> v \<le> 122 then byte_of (v - 32)
                else if \<not> upper \<and> 65 \<le> v \<and> v \<le> 90 then byte_of (v + 32)
                else c)
      in c' # canonicalCase (c' = CHR ''-'') cs)"

text \<open>
  \<^verbatim>\<open>textproto.CanonicalMIMEHeaderKey\<close>: a key made of header field bytes gets an upper
  case letter first and after each hyphen and lower case letters elsewhere; any other
  key is left as it is.
\<close>

definition CanonicalMIMEHeaderKey :: "string \<Rightarrow> string" where
  "CanonicalMIMEHeaderKey s = (if list_all validHeaderFieldByte s then canonicalCase True s else s)"

text \<open>
  \<^verbatim>\<open>http.Header\<close> is a map from canonical keys to the list of the values received.
  \<^verbatim>\<open>Header.Get\<close> gives the first value of the canonical form of the key, and the empty
  string when there is none.
\<close>

type_synonym Header = "string \<rightharpoonup> string list"

definition Header_Get :: "Header \<Rightarrow> string \<Rightarrow> string" where
  "Header_Get h key =
     (case h (CanonicalMIMEHeaderKey key) of
        None \<Rightarrow> []
      | Some [] \<Rightarrow> []
      | Some (v # _) \<Rightarrow> v)"

text \<open>
  The request body is a stream: the bytes not yet read, and whether reading past them
  ends in an error instead of the end of the stream. \<^verbatim>\<open>io.ReadAll\<close> returns the bytes
  read, whether it failed, and leaves the stream consumed.
\<close>

datatype reader = Reader (unread: bytes) (broken: bool)

fun io_ReadAll :: "reader \<Rightarrow> bytes \<times> bool \<times> reader" where
  "io_ReadAll (Reader bs err) = (bs, err, Reader [] err)"

text \<open>\<^verbatim>\<open>io.NopCloser(bytes.NewBuffer(body))\<close>: a stream over a buffer in memory.\<close>

definition bytes_NewBuffer :: "bytes \<Rightarrow> reader" where
  "bytes_NewBuffer body = Reader body False"

text \<open>The fields of \<^verbatim>\<open>*http.Request\<close> the middleware reads or writes.\<close>

record request =
  Method :: string
  URL_Path :: string
  URL_RawQuery :: string
  Host :: string
  Header :: Header
  Body :: reader

section \<open>The HMAC middleware\<close>

subsection \<open>Configuration\<close>

record HMACClientSecret =
  ClientID :: string
  Secret :: string
  Department :: string
  Descr :: string

type_synonym HMACRouteRights = "string \<rightharpoonup> string list"

text \<open>
  The interface \<^verbatim>\<open>HMACConfig\<close> has one getter for each field of its implementation
  \<^verbatim>\<open>simpleHMACConfig\<close>, which returns the field.
\<close>

record HMACConfig =
  GetClientSecrets :: "HMACClientSecret list"
  GetRouteRights :: HMACRouteRights
  GetAlgorithm :: string
  GetMaxAge :: int
  IsRequired :: bool

subsection \<open>Hash functions, errors and log entries\<close>

text \<open>
  The two constructors \<^verbatim>\<open>sha256.New\<close> and \<^verbatim>\<open>sha512.New\<close>. The keyed digest itself,
  \<^verbatim>\<open>hmac.New(algorithm, key)\<close> followed by \<^verbatim>\<open>Write(message)\<close> and \<^verbatim>\<open>Sum(nil)\<close>, belongs to
  the Go library: every function that computes it takes it as its first argument, of
  type \<open>hmac_sum\<close> (hash function, key, message to digest).
\<close>

datatype hash_new = sha256_New | sha512_New

type_synonym hmac_sum = "hash_new \<Rightarrow> bytes \<Rightarrow> bytes \<Rightarrow> bytes"

text \<open>
  The errors are the values of \<^verbatim>\<open>fmt.Errorf\<close> in the source, one constructor for each
  message:
  \<^item> \<open>InvalidFormat\<close>: "invalid Authorization header format";
  \<^item> \<open>MissingCredentialOrSignature\<close>: "missing Credential or Signature in Authorization header";
  \<^item> \<open>SecretNotBase64\<close>: "secret is not valid Base64: ...";
  \<^item> \<open>ClientIDNotFound id\<close>: "client ID not found: id";
  \<^item> \<open>NoRoutePermissions id\<close>: "client id has no route permissions";
  \<^item> \<open>NotAuthorizedForRoute id route\<close>: "client id not authorized for route route".
\<close>

datatype parse_error = InvalidFormat | MissingCredentialOrSignature

datatype verify_error = SecretNotBase64

datatype lookup_error = ClientIDNotFound string

datatype route_error = NoRoutePermissions string | NotAuthorizedForRoute string string

text \<open>
  The errors of \<^verbatim>\<open>validateHMACSignature\<close>, which wrap the ones above:
  \<^item> \<open>MissingAuthorizationHeader\<close>: "missing Authorization header";
  \<^item> \<open>InvalidAuthorizationHeader e\<close>: "invalid Authorization header: e";
  \<^item> \<open>MissingDateHeader\<close>: "missing Date header";
  \<^item> \<open>MissingContentHmacHeader\<close>: "missing x-content-hmac header";
  \<^item> \<open>ClientNotFoundOrInvalid e\<close>: "client not found or invalid: e";
  \<^item> \<open>AccessDeniedToRoute e\<close>: "access denied to route: e";
  \<^item> \<open>FailedToReadBody\<close>: "failed to read request body: ...";
  \<^item> \<open>InvalidHMACSignature (Some e)\<close>: "invalid HMAC signature: e", and
    \<open>InvalidHMACSignature None\<close>: "invalid HMAC signature".
\<close>

datatype auth_error =
    MissingAuthorizationHeader
  | InvalidAuthorizationHeader parse_error
  | MissingDateHeader
  | MissingContentHmacHeader
  | ClientNotFoundOrInvalid lookup_error
  | AccessDeniedToRoute route_error
  | FailedToReadBody
  | InvalidHMACSignature "verify_error option"

text \<open>
  What the code hands to the logging collaborator: the debug entry of
  \<^verbatim>\<open>verifySignature\<close> (length of the secret, string to sign, expected and received
  signature), the warning of the middleware, the information of the setup.
\<close>

datatype log_level = DebugLevel | InfoLevel | WarnLevel

datatype log_entry =
    Debug_verification nat string string string
  | Warn_validation auth_error
  | Info_message string

fun level_of :: "log_entry \<Rightarrow> log_level" where
  "level_of (Debug_verification _ _ _ _) = DebugLevel"
| "level_of (Warn_validation _) = WarnLevel"
| "level_of (Info_message _) = InfoLevel"

subsection \<open>The functions of the middleware\<close>

text \<open>
  \<^verbatim>\<open>parseAuthorizationHeader\<close>. The loop over the parameters keeps, for each of the two
  prefixes, the value of the last parameter that starts with it; \<open>scanParam\<close> is one
  turn of the loop on the pair of variables \<open>(credential, signature)\<close>.
\<close>

definition scanParam :: "string \<times> string \<Rightarrow> string \<Rightarrow> string \<times> string" where
  "scanParam cs param =
     (if strings_HasPrefix param ''Credential=''
      then (strings_TrimPrefix param ''Credential='', snd cs)
      else if strings_HasPrefix param ''Signature=''
      then (fst cs, strings_TrimPrefix param ''Signature='')
      else cs)"

definition parseAuthorizationHeader :: "string \<Rightarrow> parse_error + string \<times> string" where
  "parseAuthorizationHeader authHeader =
     (let parts = strings_Split authHeader (CHR '' '') in
      if length parts \<noteq> 2 then Inl InvalidFormat
      else
        let params = strings_Split (parts ! 1) (CHR ''&'');
            (credential, signature) = foldl scanParam ([], []) params
        in if credential = [] \<or> signature = [] then Inl MissingCredentialOrSignature
           else Inr (credential, signature))"

text \<open>\<^verbatim>\<open>createStringToSign\<close>; the body is a parameter the function does not use.\<close>

definition createStringToSign :: "request \<Rightarrow> bytes \<Rightarrow> string \<Rightarrow> string \<Rightarrow> string" where
  "createStringToSign r body dateHeader contentHash =
     (let verb = Method r;
          pathAndQuery = (if URL_RawQuery r \<noteq> [] then URL_Path r @ ''?'' @ URL_RawQuery r
                          else URL_Path r);
          host = Host r
      in verb @ [CHR 0x0A] @ pathAndQuery @ [CHR 0x0A] @ dateHeader @ '';'' @ host @ '';''
         @ contentHash)"

text \<open>
  \<^verbatim>\<open>verifySignature\<close> returns the pair of Go, a boolean and an error that may be nil. The
  first argument is the keyed digest of the library; \<open>logger\<close> says whether
  \<^verbatim>\<open>logging.New\<close> gave a logger, and the entries written to it are returned with the
  result. \<^verbatim>\<open>hmac.Equal\<close> compares the two byte sequences in constant time and is true
  exactly when they are equal.
\<close>

definition verifySignature ::
  "hmac_sum \<Rightarrow> bool \<Rightarrow> string \<Rightarrow> string \<Rightarrow> string \<Rightarrow> hash_new
   \<Rightarrow> (bool \<times> verify_error option) \<times> log_entry list" where
  "verifySignature hmacSum logger stringToSign signature secretKey algorithm =
     (case DecodeString secretKey of
        None \<Rightarrow> ((False, Some SecretNotBase64), [])
      | Some secretBytes \<Rightarrow>
          let expectedSignature = EncodeToString (hmacSum algorithm secretBytes stringToSign)
          in ((signature = expectedSignature, None),
              if logger
              then [Debug_verification (length secretBytes) stringToSign expectedSignature
                      signature]
              else []))"

definition getAlgorithm :: "string \<Rightarrow> hash_new" where
  "getAlgorithm algorithm = (if algorithm = ''sha512'' then sha512_New else sha256_New)"

fun findClientSecret :: "string \<Rightarrow> HMACClientSecret list \<Rightarrow> lookup_error + string" where
  "findClientSecret clientID [] = Inl (ClientIDNotFound clientID)"
| "findClientSecret clientID (client # clientSecrets) =
     (if ClientID client = clientID then Inr (Secret client)
      else findClientSecret clientID clientSecrets)"

text \<open>
  \<^verbatim>\<open>checkRouteAccess\<close>; \<open>None\<close> is the nil error. The table is a Go map, and
  \<^verbatim>\<open>len(routeRights) == 0\<close> says that it has no key.
\<close>

definition routeAllowed :: "string \<Rightarrow> string \<Rightarrow> bool" where
  "routeAllowed route allowedRoute \<longleftrightarrow> allowedRoute = ''*'' \<or> strings_HasPrefix route allowedRoute"

definition checkRouteAccess :: "string \<Rightarrow> string \<Rightarrow> HMACRouteRights \<Rightarrow> route_error option" where
  "checkRouteAccess clientID route routeRights =
     (if dom routeRights = {} then None
      else
        (case routeRights clientID of
           None \<Rightarrow> Some (NoRoutePermissions clientID)
         | Some allowedRoutes \<Rightarrow>
             if list_ex (routeAllowed route) allowedRoutes then None
             else Some (NotAuthorizedForRoute clientID route)))"

text \<open>
  \<^verbatim>\<open>validateHMACSignature\<close> returns its error (\<open>None\<close> is nil), the request as it leaves it
  (the function replaces \<^verbatim>\<open>r.Body\<close>) and the entries logged.
\<close>

definition validateHMACSignature ::
  "hmac_sum \<Rightarrow> bool \<Rightarrow> request \<Rightarrow> HMACConfig \<Rightarrow> auth_error option \<times> request \<times> log_entry list" where
  "validateHMACSignature hmacSum logger r cfg =
     (let authHeader = Header_Get (Header r) ''Authorization'' in
      if authHeader = [] then (Some MissingAuthorizationHeader, r, [])
      else
        (case parseAuthorizationHeader authHeader of
           Inl err \<Rightarrow> (Some (InvalidAuthorizationHeader err), r, [])
         | Inr (credential, signature) \<Rightarrow>
             let dateHeader = Header_Get (Header r) ''Date'' in
             if dateHeader = [] then (Some MissingDateHeader, r, [])
             else
               let contentHash = Header_Get (Header r) ''x-content-hmac'' in
               if contentHash = [] then (Some MissingContentHmacHeader, r, [])
               else
                 (case findClientSecret credential (GetClientSecrets cfg) of
                    Inl err \<Rightarrow> (Some (ClientNotFoundOrInvalid err), r, [])
                  | Inr clientSecret \<Rightarrow>
                      (case checkRouteAccess credential (URL_Path r) (GetRouteRights cfg) of
                         Some err \<Rightarrow> (Some (AccessDeniedToRoute err), r, [])
                       | None \<Rightarrow>
                           (case io_ReadAll (Body r) of
                              (body, failed, consumed) \<Rightarrow>
                                if failed then (Some FailedToReadBody, r\<lparr>Body := consumed\<rparr>, [])
                                else
                                  let r' = r\<lparr>Body := bytes_NewBuffer body\<rparr>;
                                      stringToSign = createStringToSign r' body dateHeader contentHash;
                                      algorithm = getAlgorithm (GetAlgorithm cfg)
                                  in (case verifySignature hmacSum logger stringToSign signature
                                             clientSecret algorithm of
                                        ((ok, err), entries) \<Rightarrow>
                                          if \<not> ok then (Some (InvalidHMACSignature err), r', entries)
                                          else (None, r', entries)))))))"

text \<open>
  \<^verbatim>\<open>CreateHMACSignature\<close>, the signing function of the package; it does not use the body
  and the client identifier it is given.
\<close>

definition CreateHMACSignature ::
  "hmac_sum \<Rightarrow> string \<Rightarrow> string \<Rightarrow> bytes \<Rightarrow> string \<Rightarrow> string \<Rightarrow> string \<Rightarrow> string \<Rightarrow> string
   \<Rightarrow> verify_error + string" where
  "CreateHMACSignature hmacSum method path body dateHeader contentHash clientID secretKey algorithm =
     (let stringToSign = method @ [CHR 0x0A] @ path @ [CHR 0x0A] @ dateHeader @ '';localhost;''
                         @ contentHash;
          hashFunc = getAlgorithm algorithm
      in case DecodeString secretKey of
           None \<Rightarrow> Inl SecretNotBase64
         | Some secretBytes \<Rightarrow> Inr (EncodeToString (hmacSum hashFunc secretBytes stringToSign)))"

subsection \<open>The handler and its installation\<close>

text \<open>
  The problem object of the 401 response. \<open>Detail\<close> holds the error whose text
  \<^verbatim>\<open>err.Error()\<close> the source stores; the timestamp is left out.
\<close>

record Problem =
  Type :: string
  Title :: string
  Status :: int
  Detail :: auth_error
  Instance :: string

definition TypeUnauthorized :: string where
  "TypeUnauthorized = ''https://tools.ietf.org/html/rfc7235#section-3.1''"

text \<open>
  A handler answers a request and logs; the answer is either the problem response of
  this middleware or whatever the downstream handler writes. \<^verbatim>\<open>HMACAuthMiddleware\<close> asks
  \<^verbatim>\<open>logging.New\<close> for a logger for each request and goes on without one when that
  fails; \<open>logger\<close> says whether it got one, and \<^verbatim>\<open>verifySignature\<close>, which asks again
  with the same configuration, is given the same answer.
\<close>

datatype 'a response = ProblemJSON Problem | Downstream 'a

type_synonym 'a handler = "request \<Rightarrow> 'a response \<times> log_entry list"

definition HMACAuthMiddleware ::
  "hmac_sum \<Rightarrow> bool \<Rightarrow> HMACConfig \<Rightarrow> 'a handler \<Rightarrow> 'a handler" where
  "HMACAuthMiddleware hmacSum logger cfg next r =
     (case validateHMACSignature hmacSum logger r cfg of
        (Some err, r', entries) \<Rightarrow>
          if IsRequired cfg then
            (ProblemJSON \<lparr>Type = TypeUnauthorized, Title = ''Invalid HMAC signature'',
                          Status = 401, Detail = err, Instance = URL_Path r'\<rparr>,
             entries)
          else
            (case next r' of
               (resp, served) \<Rightarrow>
                 (resp, entries @ (if logger then [Warn_validation err] else []) @ served))
      | (None, r', entries) \<Rightarrow>
          (case next r' of (resp, served) \<Rightarrow> (resp, entries @ served)))"

text \<open>
  \<^verbatim>\<open>SetupHMACMiddleware\<close>: the server is the list of the middlewares installed with
  \<^verbatim>\<open>e.Use\<close>; \<open>appLogger\<close> says whether the logger passed in is not nil, \<open>logger\<close>
  whether the middleware will get one for a request.
\<close>

definition SetupHMACMiddleware ::
  "hmac_sum \<Rightarrow> bool \<Rightarrow> ('a handler \<Rightarrow> 'a handler) list \<Rightarrow> HMACConfig \<Rightarrow> bool
   \<Rightarrow> ('a handler \<Rightarrow> 'a handler) list \<times> log_entry list" where
  "SetupHMACMiddleware hmacSum logger e config appLogger =
     (if \<not> IsRequired config then
        (e, if appLogger then [Info_message ''HMAC middleware is disabled''] else [])
      else
        (e @ [HMACAuthMiddleware hmacSum logger config],
         if appLogger then [Info_message ''HMAC middleware configured successfully''] else []))"

section \<open>Descriptions to compare the code with\<close>

text \<open>
  The value a list of parameters gives to a key such as \<^verbatim>\<open>Credential=\<close>: what follows the
  key in the last parameter that starts with it, and the empty string when no
  parameter starts with it. This is a description of the result of the loop of
  \<^verbatim>\<open>parseAuthorizationHeader\<close>, proved equal to it below, not a function of the source.
\<close>

definition paramValue :: "string \<Rightarrow> string list \<Rightarrow> string" where
  "paramValue key params =
     (case filter (prefix key) params of
        [] \<Rightarrow> []
      | p # ps \<Rightarrow> drop (length key) (last (p # ps)))"

section \<open>Example values\<close>

text \<open>
  The values the examples below are evaluated at: the fixture of the specification
  (secret \<^verbatim>\<open>c2VjcmV0\<close>, \<^verbatim>\<open>GET /api/v1/users\<close> on \<^verbatim>\<open>localhost\<close>, the content hash of the
  empty body). \<open>example_sum\<close> stands in for the keyed digest of the library where an
  example needs one that computes: it is the key followed by the message.
\<close>

definition example_sum :: hmac_sum where
  "example_sum algorithm key message = key @ message"

definition example_headers :: "string \<Rightarrow> string \<Rightarrow> string \<Rightarrow> Header" where
  "example_headers auth date contentHash =
     [''Authorization'' \<mapsto> [auth], ''Date'' \<mapsto> [date], ''X-Content-Hmac'' \<mapsto> [contentHash]]"

definition example_date :: string where
  "example_date = ''Mon, 02 Jan 2006 15:04:05 GMT''"

definition example_hash :: string where
  "example_hash = ''47DEQpj8HBSa+/TImW+5JCeuQeRkm5NMpJWZG3hSuFU=''"

definition example_request :: "Header \<Rightarrow> request" where
  "example_request h =
     \<lparr>Method = ''GET'', URL_Path = ''/api/v1/users'', URL_RawQuery = [], Host = ''localhost'',
      Header = h, Body = Reader [] False\<rparr>"

definition example_config :: "bool \<Rightarrow> HMACConfig" where
  "example_config required =
     \<lparr>GetClientSecrets = [\<lparr>ClientID = ''web'', Secret = ''c2VjcmV0'', Department = ''web'',
                            Descr = ''web client''\<rparr>],
      GetRouteRights = [''web'' \<mapsto> [''/api/v1/users'']],
      GetAlgorithm = ''sha256'', GetMaxAge = 300, IsRequired = required\<rparr>"

definition example_corrupt_config :: HMACConfig where
  "example_corrupt_config =
     (example_config True)
       \<lparr>GetClientSecrets := [\<lparr>ClientID = ''web'', Secret = ''c2Vj*'', Department = ''web'',
                               Descr = ''web client''\<rparr>]\<rparr>"

definition example_signature :: "string \<Rightarrow> string" where
  "example_signature date =
     EncodeToString (example_sum sha256_New ''secret''
       (''GET'' @ [CHR 0x0A] @ ''/api/v1/users'' @ [CHR 0x0A] @ date @ '';localhost;''
        @ example_hash))"

definition example_params :: "string \<Rightarrow> string" where
  "example_params date =
     ''Credential=web&SignedHeaders=date;host;x-content-hmac&Signature=''
     @ example_signature date"

definition example_authorization :: "string \<Rightarrow> string" where
  "example_authorization date = ''HMAC-SHA256 '' @ example_params date"

definition example_signed :: "string \<Rightarrow> request" where
  "example_signed date =
     example_request (example_headers (example_authorization date) date example_hash)"

definition example_handler :: "unit handler" where
  "example_handler r = (Downstream (), [])"

section \<open>Evaluating the library functions\<close>

lemma decode_secret_fixture: "DecodeString ''c2VjcmV0'' = Some ''secret''"
  by code_simp

lemma decode_corrupt_fixture: "DecodeString ''c2Vj*'' = None"
  by code_simp

lemma encode_fixture: "EncodeToString ''secretGET'' = ''c2VjcmV0R0VU''"
  by code_simp

lemma canonical_Authorization: "CanonicalMIMEHeaderKey ''Authorization'' = ''Authorization''"
  by code_simp

lemma canonical_Date: "CanonicalMIMEHeaderKey ''Date'' = ''Date''"
  by code_simp

lemma canonical_content_hmac: "CanonicalMIMEHeaderKey ''x-content-hmac'' = ''X-Content-Hmac''"
  by code_simp

lemma example_nonempty: "example_date \<noteq> []" "example_hash \<noteq> []"
  by (simp_all add: example_date_def example_hash_def)

lemma Header_Get_example:
  "Header_Get (example_headers auth date contentHash) ''Authorization'' = auth"
  "Header_Get (example_headers auth date contentHash) ''Date'' = date"
  "Header_Get (example_headers auth date contentHash) ''x-content-hmac'' = contentHash"
  by (simp_all add: Header_Get_def example_headers_def canonical_Authorization canonical_Date
        canonical_content_hmac)

lemma Header_Get_Authorization:
  "Header_Get h ''Authorization''
     = (case h ''Authorization'' of None \<Rightarrow> [] | Some [] \<Rightarrow> [] | Some (v # _) \<Rightarrow> v)"
  by (simp add: Header_Get_def canonical_Authorization)

lemma Header_Get_Date:
  "Header_Get h ''Date'' = (case h ''Date'' of None \<Rightarrow> [] | Some [] \<Rightarrow> [] | Some (v # _) \<Rightarrow> v)"
  by (simp add: Header_Get_def canonical_Date)

lemma Header_Get_content_hmac:
  "Header_Get h ''x-content-hmac''
     = (case h ''X-Content-Hmac'' of None \<Rightarrow> [] | Some [] \<Rightarrow> [] | Some (v # _) \<Rightarrow> v)"
  by (simp add: Header_Get_def canonical_content_hmac)

section \<open>The loop of the header parser\<close>

lemma prefixes_disjoint: "prefix ''Credential='' p \<Longrightarrow> \<not> prefix ''Signature='' p"
  by (auto simp: prefix_def)

lemma foldl_scanParam:
  "foldl scanParam (c, s) params =
     (case filter (prefix ''Credential='') params of
        [] \<Rightarrow> c | p # ps \<Rightarrow> drop (length ''Credential='') (last (p # ps)),
      case filter (prefix ''Signature='') params of
        [] \<Rightarrow> s | p # ps \<Rightarrow> drop (length ''Signature='') (last (p # ps)))"
proof (induction params rule: rev_induct)
  case Nil
  show ?case by simp
next
  case (snoc x xs)
  show ?case
  proof (cases "prefix ''Credential='' x")
    case True
    then have "\<not> prefix ''Signature='' x" by (rule prefixes_disjoint)
    with True snoc show ?thesis
      by (simp add: scanParam_def strings_HasPrefix_def strings_TrimPrefix_def split: list.splits)
  next
    case False
    with snoc show ?thesis
      by (simp add: scanParam_def strings_HasPrefix_def strings_TrimPrefix_def split: list.splits)
  qed
qed

lemma scan_paramValue:
  "foldl scanParam ([], []) params
     = (paramValue ''Credential='' params, paramValue ''Signature='' params)"
  unfolding paramValue_def by (rule foldl_scanParam)

lemma parseAuthorizationHeader_paramValue:
  "parseAuthorizationHeader authHeader =
     (let parts = strings_Split authHeader (CHR '' '');
          params = strings_Split (parts ! 1) (CHR ''&'');
          credential = paramValue ''Credential='' params;
          signature = paramValue ''Signature='' params
      in if length parts \<noteq> 2 then Inl InvalidFormat
         else if credential = [] \<or> signature = [] then Inl MissingCredentialOrSignature
         else Inr (credential, signature))"
  by (simp add: parseAuthorizationHeader_def scan_paramValue Let_def)

section \<open>The first stages of validation\<close>

lemma validate_missing_authorization:
  "Header_Get (Header r) ''Authorization'' = [] \<Longrightarrow>
   validateHMACSignature hmacSum logger r cfg = (Some MissingAuthorizationHeader, r, [])"
  by (simp add: validateHMACSignature_def)

lemma validate_malformed_authorization:
  "Header_Get (Header r) ''Authorization'' \<noteq> [] \<Longrightarrow>
   parseAuthorizationHeader (Header_Get (Header r) ''Authorization'') = Inl e \<Longrightarrow>
   validateHMACSignature hmacSum logger r cfg = (Some (InvalidAuthorizationHeader e), r, [])"
  by (simp add: validateHMACSignature_def)

lemma validate_parsed_authorization:
  "Header_Get (Header r) ''Authorization'' \<noteq> [] \<Longrightarrow>
   parseAuthorizationHeader (Header_Get (Header r) ''Authorization'') = Inr (c, s) \<Longrightarrow>
   fst (validateHMACSignature hmacSum logger r cfg) \<noteq> Some MissingAuthorizationHeader \<and>
   (\<forall>e. fst (validateHMACSignature hmacSum logger r cfg) \<noteq> Some (InvalidAuthorizationHeader e))"
  by (simp add: validateHMACSignature_def Let_def
        split: sum.splits option.splits prod.splits)

lemma parse_empty: "parseAuthorizationHeader [] = Inl InvalidFormat"
  by (simp add: parseAuthorizationHeader_def)

section \<open>The later stages of validation\<close>

lemma createStringToSign_Header:
  "createStringToSign (r\<lparr>Header := h\<rparr>) body dateHeader contentHash
     = createStringToSign r body dateHeader contentHash"
  by (simp add: createStringToSign_def)

lemma createStringToSign_Body:
  "createStringToSign (r\<lparr>Body := b\<rparr>) body dateHeader contentHash
     = createStringToSign r body dateHeader contentHash"
  by (simp add: createStringToSign_def)

lemma restore_unbroken:
  "Body r = Reader body False \<Longrightarrow> r\<lparr>Body := bytes_NewBuffer body\<rparr> = r"
  by (simp add: bytes_NewBuffer_def)

text \<open>
  A request that passes the header, credential and route stages and whose body can be
  read is decided by \<^verbatim>\<open>verifySignature\<close> alone.
\<close>

lemma validate_reaches_verification:
  assumes "parseAuthorizationHeader (Header_Get (Header r) ''Authorization'')
             = Inr (credential, signature)"
    and "Header_Get (Header r) ''Date'' \<noteq> []"
    and "Header_Get (Header r) ''x-content-hmac'' \<noteq> []"
    and "findClientSecret credential (GetClientSecrets cfg) = Inr clientSecret"
    and "checkRouteAccess credential (URL_Path r) (GetRouteRights cfg) = None"
    and "Body r = Reader body False"
  shows "validateHMACSignature hmacSum logger r cfg =
     (case verifySignature hmacSum logger
             (createStringToSign r body (Header_Get (Header r) ''Date'')
                (Header_Get (Header r) ''x-content-hmac''))
             signature clientSecret (getAlgorithm (GetAlgorithm cfg)) of
        ((ok, err), entries) \<Rightarrow>
          (if ok then None else Some (InvalidHMACSignature err), r, entries))"
proof -
  have a: "Header_Get (Header r) ''Authorization'' \<noteq> []"
    using assms(1) by (auto simp: parse_empty)
  have "r\<lparr>Body := bytes_NewBuffer body\<rparr> = r"
    using assms(6) by (rule restore_unbroken)
  then show ?thesis
    using assms a
    by (simp add: validateHMACSignature_def Let_def split: prod.splits)
qed

lemma validate_accepts_iff:
  assumes "parseAuthorizationHeader (Header_Get (Header r) ''Authorization'')
             = Inr (credential, signature)"
    and "Header_Get (Header r) ''Date'' \<noteq> []"
    and "Header_Get (Header r) ''x-content-hmac'' \<noteq> []"
    and "findClientSecret credential (GetClientSecrets cfg) = Inr clientSecret"
    and "checkRouteAccess credential (URL_Path r) (GetRouteRights cfg) = None"
    and "Body r = Reader body False"
    and "DecodeString clientSecret = Some secretBytes"
  shows "fst (validateHMACSignature hmacSum logger r cfg) = None \<longleftrightarrow>
         signature = EncodeToString
           (hmacSum (getAlgorithm (GetAlgorithm cfg)) secretBytes
              (createStringToSign r body (Header_Get (Header r) ''Date'')
                 (Header_Get (Header r) ''x-content-hmac'')))"
  using assms(7)
  by (simp add: validate_reaches_verification [OF assms(1-6)] verifySignature_def Let_def)

lemma validate_secret_not_base64:
  assumes "parseAuthorizationHeader (Header_Get (Header r) ''Authorization'')
             = Inr (credential, signature)"
    and "Header_Get (Header r) ''Date'' \<noteq> []"
    and "Header_Get (Header r) ''x-content-hmac'' \<noteq> []"
    and "findClientSecret credential (GetClientSecrets cfg) = Inr clientSecret"
    and "checkRouteAccess credential (URL_Path r) (GetRouteRights cfg) = None"
    and "Body r = Reader body False"
    and "DecodeString clientSecret = None"
  shows "validateHMACSignature hmacSum logger r cfg
           = (Some (InvalidHMACSignature (Some SecretNotBase64)), r, [])"
  using assms(7)
  by (simp add: validate_reaches_verification [OF assms(1-6)] verifySignature_def)

text \<open>A body that can be read is on the request again when validation returns.\<close>

lemma validate_keeps_request:
  assumes "\<not> broken (Body r)"
  shows "fst (snd (validateHMACSignature hmacSum logger r cfg)) = r"
proof -
  obtain body where b: "Body r = Reader body False"
    using assms by (cases "Body r") auto
  then have "r\<lparr>Body := bytes_NewBuffer body\<rparr> = r"
    by (rule restore_unbroken)
  with b show ?thesis
    by (simp add: validateHMACSignature_def Let_def
          split: sum.splits option.splits prod.splits)
qed

lemma validate_accepted_body:
  assumes "validateHMACSignature hmacSum logger r cfg = (None, r', entries)"
  shows "\<not> broken (Body r)"
proof (rule ccontr)
  assume "\<not> \<not> broken (Body r)"
  then obtain body where b: "Body r = Reader body True"
    by (cases "Body r") auto
  have "fst (validateHMACSignature hmacSum logger r cfg) \<noteq> None"
    using b
    by (simp add: validateHMACSignature_def Let_def
          split: sum.splits option.splits prod.splits)
  with assms show False by simp
qed

section \<open>The scheme token\<close>

lemma Split_scheme:
  "sep \<notin> set scheme \<Longrightarrow>
   strings_Split (scheme @ sep # rest) sep = scheme # strings_Split rest sep"
  by (induction scheme) auto

lemma parse_ignores_scheme:
  assumes "CHR '' '' \<notin> set scheme1" and "CHR '' '' \<notin> set scheme2"
  shows "parseAuthorizationHeader (scheme1 @ CHR '' '' # params)
           = parseAuthorizationHeader (scheme2 @ CHR '' '' # params)"
  using assms by (simp add: parseAuthorizationHeader_def Split_scheme Let_def)

text \<open>
  Validation reads the headers through three lookups only; two header maps that agree
  on what the parser returns for the first and on the other two give the same result.
\<close>

lemma validate_cong_authorization:
  assumes "Header_Get h1 ''Authorization'' \<noteq> []" and "Header_Get h2 ''Authorization'' \<noteq> []"
    and "parseAuthorizationHeader (Header_Get h1 ''Authorization'')
           = parseAuthorizationHeader (Header_Get h2 ''Authorization'')"
    and "Header_Get h1 ''Date'' = Header_Get h2 ''Date''"
    and "Header_Get h1 ''x-content-hmac'' = Header_Get h2 ''x-content-hmac''"
  shows "fst (validateHMACSignature hmacSum logger (r\<lparr>Header := h1\<rparr>) cfg)
           = fst (validateHMACSignature hmacSum logger (r\<lparr>Header := h2\<rparr>) cfg) \<and>
         snd (snd (validateHMACSignature hmacSum logger (r\<lparr>Header := h1\<rparr>) cfg))
           = snd (snd (validateHMACSignature hmacSum logger (r\<lparr>Header := h2\<rparr>) cfg)) \<and>
         Body (fst (snd (validateHMACSignature hmacSum logger (r\<lparr>Header := h1\<rparr>) cfg)))
           = Body (fst (snd (validateHMACSignature hmacSum logger (r\<lparr>Header := h2\<rparr>) cfg)))"
  using assms
  by (simp add: validateHMACSignature_def Let_def createStringToSign_Header
        createStringToSign_Body
        split: sum.splits option.splits prod.splits)

section \<open>Evaluating the example request\<close>

lemma example_signature_value:
  "example_signature example_date
     = ''c2VjcmV0R0VUCi9hcGkvdjEvdXNlcnMKTW9uLCAwMiBKYW4gMjAwNiAxNTowNDowNSBHTVQ7bG9jYWxob3N0OzQ3REVRcGo4SEJTYSsvVEltVys1SkNldVFlUmttNU5NcEpXWkczaFN1RlU9''"
  by code_simp

lemma parse_example:
  "parseAuthorizationHeader (example_authorization example_date)
     = Inr (''web'', example_signature example_date)"
  by code_simp

lemma parse_example_yesterday:
  "parseAuthorizationHeader (example_authorization ''yesterday'')
     = Inr (''web'', example_signature ''yesterday'')"
  by code_simp

lemma parse_example_short:
  "parseAuthorizationHeader ''HMAC-SHA256 Credential=web&SignedHeaders=date&Signature=abc''
     = Inr (''web'', ''abc'')"
  by code_simp

lemma parse_example_no_credential:
  "parseAuthorizationHeader ''HMAC-SHA256 Signature=abc'' = Inl MissingCredentialOrSignature"
  by code_simp

lemma example_route_allowed:
  "checkRouteAccess ''web'' ''/api/v1/users'' (GetRouteRights (example_config required)) = None"
  by (simp add: checkRouteAccess_def example_config_def routeAllowed_def strings_HasPrefix_def)

lemma example_client_found:
  "findClientSecret ''web'' (GetClientSecrets (example_config required)) = Inr ''c2VjcmV0''"
  by (simp add: example_config_def)

lemma example_string_to_sign:
  "createStringToSign (example_request h) body date example_hash
     = ''GET'' @ [CHR 0x0A] @ ''/api/v1/users'' @ [CHR 0x0A] @ date @ '';localhost;''
       @ example_hash"
  by (simp add: createStringToSign_def example_request_def)

lemma verify_example:
  "fst (verifySignature example_sum logger
          (createStringToSign (example_request h) body date example_hash)
          (example_signature date) ''c2VjcmV0'' sha256_New) = (True, None)"
  by (simp only: verifySignature_def decode_secret_fixture option.case Let_def
        example_string_to_sign example_signature_def fst_conv refl)

lemma validate_example_body_accepted:
  assumes "parseAuthorizationHeader (example_authorization date)
             = Inr (''web'', example_signature date)"
    and "date \<noteq> []"
  shows "fst (validateHMACSignature example_sum logger
                ((example_signed date)\<lparr>Body := Reader body False\<rparr>)
                (example_config required)) = None"
proof -
  let ?h = "example_headers (example_authorization date) date example_hash"
  let ?r = "(example_signed date)\<lparr>Body := Reader body False\<rparr>"
  have h: "Header ?r = ?h"
    and b: "Body ?r = Reader body False" and p: "URL_Path ?r = ''/api/v1/users''"
    by (simp_all add: example_signed_def example_request_def)
  have a: "getAlgorithm (GetAlgorithm (example_config required)) = sha256_New"
    by (simp add: example_config_def getAlgorithm_def)
  have hd: "Header_Get (Header ?r) ''Date'' = date"
    and hc: "Header_Get (Header ?r) ''x-content-hmac'' = example_hash"
    by (simp_all only: h Header_Get_example)
  have s: "createStringToSign ?r body date example_hash
             = createStringToSign (example_request ?h) body date example_hash"
    by (simp add: createStringToSign_def example_signed_def example_request_def)
  have "validateHMACSignature example_sum logger ?r (example_config required) =
     (case verifySignature example_sum logger
             (createStringToSign ?r body (Header_Get (Header ?r) ''Date'')
                (Header_Get (Header ?r) ''x-content-hmac''))
             (example_signature date) ''c2VjcmV0''
             (getAlgorithm (GetAlgorithm (example_config required))) of
        ((ok, err), entries) \<Rightarrow>
          (if ok then None else Some (InvalidHMACSignature err), ?r, entries))"
    by (rule validate_reaches_verification [where credential = "''web''"])
       (simp_all only: h b p Header_Get_example assms example_route_allowed
          example_client_found example_hash_def, simp_all)
  also have "fst \<dots> = None"
  proof -
    have "fst (verifySignature example_sum logger
             (createStringToSign ?r body (Header_Get (Header ?r) ''Date'')
                (Header_Get (Header ?r) ''x-content-hmac''))
             (example_signature date) ''c2VjcmV0''
             (getAlgorithm (GetAlgorithm (example_config required)))) = (True, None)"
      unfolding hd hc a s by (rule verify_example)
    then show ?thesis
      by (auto split: prod.splits)
  qed
  finally show ?thesis .
qed

lemma validate_example_accepted:
  assumes "parseAuthorizationHeader (example_authorization date)
             = Inr (''web'', example_signature date)"
    and "date \<noteq> []"
  shows "fst (validateHMACSignature example_sum logger (example_signed date)
                (example_config required)) = None"
proof -
  have "(example_signed date)\<lparr>Body := Reader [] False\<rparr> = example_signed date"
    by (simp add: example_signed_def example_request_def)
  with validate_example_body_accepted [OF assms, of logger "[]" required]
  show ?thesis by simp
qed

section \<open>The signature verifier\<close>

text \<open>
  Claim C1. \<^verbatim>\<open>verifySignature\<close> always returns a pair: when the secret is not valid
  standard base64 the pair is false with the error "secret is not valid Base64";
  when the secret decodes, the error is nil and the boolean is true exactly when the
  supplied signature is the base64 encoding of the keyed digest of the string to sign
  under the decoded secret and the algorithm passed in. A request that reaches the
  verification with a secret that is not base64 is refused by \<^verbatim>\<open>validateHMACSignature\<close>
  with "invalid HMAC signature: secret is not valid Base64", an error like the others.
\<close>

theorem verifySignature_decides:
  "(DecodeString secretKey = None \<longrightarrow>
      fst (verifySignature hmacSum logger stringToSign signature secretKey algorithm)
        = (False, Some SecretNotBase64)) \<and>
   (\<forall>secretBytes. DecodeString secretKey = Some secretBytes \<longrightarrow>
      fst (verifySignature hmacSum logger stringToSign signature secretKey algorithm)
        = (signature = EncodeToString (hmacSum algorithm secretBytes stringToSign), None)) \<and>
   (parseAuthorizationHeader (Header_Get (Header r) ''Authorization'')
      = Inr (credential, signature) \<and>
    Header_Get (Header r) ''Date'' \<noteq> [] \<and>
    Header_Get (Header r) ''x-content-hmac'' \<noteq> [] \<and>
    findClientSecret credential (GetClientSecrets cfg) = Inr secretKey \<and>
    checkRouteAccess credential (URL_Path r) (GetRouteRights cfg) = None \<and>
    Body r = Reader body False \<and>
    DecodeString secretKey = None \<longrightarrow>
      validateHMACSignature hmacSum logger r cfg
        = (Some (InvalidHMACSignature (Some SecretNotBase64)), r, []))"
  using validate_secret_not_base64 [of r credential signature cfg secretKey body hmacSum logger]
  by (simp add: verifySignature_def Let_def)

theorem verifySignature_decides_witness:
  "DecodeString ''c2Vj*'' = None \<and>
   fst (verifySignature example_sum True ''GET'' ''c2VjcmV0R0VU'' ''c2Vj*'' sha256_New)
     = (False, Some SecretNotBase64) \<and>
   DecodeString ''c2VjcmV0'' = Some ''secret'' \<and>
   fst (verifySignature example_sum True ''GET'' ''c2VjcmV0R0VU'' ''c2VjcmV0'' sha256_New)
     = (True, None) \<and>
   fst (verifySignature example_sum True ''GET'' ''c2VjcmV0R0VV'' ''c2VjcmV0'' sha256_New)
     = (False, None) \<and>
   validateHMACSignature example_sum True (example_signed example_date) example_corrupt_config
     = (Some (InvalidHMACSignature (Some SecretNotBase64)), example_signed example_date, [])"
proof -
  let ?r = "example_signed example_date"
  have hyp: "parseAuthorizationHeader (Header_Get (Header ?r) ''Authorization'')
      = Inr (''web'', example_signature example_date) \<and>
    Header_Get (Header ?r) ''Date'' \<noteq> [] \<and>
    Header_Get (Header ?r) ''x-content-hmac'' \<noteq> [] \<and>
    findClientSecret ''web'' (GetClientSecrets example_corrupt_config) = Inr ''c2Vj*'' \<and>
    checkRouteAccess ''web'' (URL_Path ?r) (GetRouteRights example_corrupt_config) = None \<and>
    Body ?r = Reader [] False \<and>
    DecodeString ''c2Vj*'' = None"
    using example_route_allowed [of True]
    by (simp add: example_signed_def example_request_def Header_Get_example parse_example
          example_corrupt_config_def decode_corrupt_fixture example_nonempty)
  from verifySignature_decides [of "''c2Vj*''" example_sum True "''GET''" "''c2VjcmV0R0VU''"
      sha256_New ?r "''web''" example_corrupt_config "[]"]
    verifySignature_decides [where secretKey = "''c2Vj*''" and hmacSum = example_sum
      and logger = True and r = ?r and credential = "''web''"
      and signature = "example_signature example_date" and cfg = example_corrupt_config
      and body = "[]"]
    verifySignature_decides [of "''c2VjcmV0''" example_sum True "''GET''" "''c2VjcmV0R0VU''"
      sha256_New]
    verifySignature_decides [of "''c2VjcmV0''" example_sum True "''GET''" "''c2VjcmV0R0VV''"
      sha256_New]
    hyp
  show ?thesis
    by (simp add: decode_secret_fixture decode_corrupt_fixture encode_fixture example_sum_def
        del: EncodeToString.simps)
qed

text \<open>
  Claim C4. For every secret that is valid base64 and every algorithm name, the
  signing computation of the package, the base64 encoding of the keyed digest under
  the decoded secret, gives for every string to sign a signature that
  \<^verbatim>\<open>verifySignature\<close> accepts for that string, secret and algorithm. The signing
  function \<^verbatim>\<open>CreateHMACSignature\<close> applies it to the string it builds from its
  arguments, so the signature it returns verifies over that string, which is the
  string \<^verbatim>\<open>createStringToSign\<close> builds for a request to the host \<^verbatim>\<open>localhost\<close> with no
  query.
\<close>

theorem sign_then_verify:
  "DecodeString secretKey = Some secretBytes \<Longrightarrow>
   CreateHMACSignature hmacSum method path body dateHeader contentHash clientID secretKey
     algorithm
     = Inr (EncodeToString (hmacSum (getAlgorithm algorithm) secretBytes
              (method @ [CHR 0x0A] @ path @ [CHR 0x0A] @ dateHeader @ '';localhost;''
               @ contentHash))) \<and>
   (\<forall>stringToSign.
      fst (verifySignature hmacSum logger stringToSign
             (EncodeToString (hmacSum (getAlgorithm algorithm) secretBytes stringToSign))
             secretKey (getAlgorithm algorithm)) = (True, None)) \<and>
   (\<forall>signature.
      CreateHMACSignature hmacSum method path body dateHeader contentHash clientID secretKey
        algorithm = Inr signature \<longrightarrow>
      fst (verifySignature hmacSum logger
             (method @ [CHR 0x0A] @ path @ [CHR 0x0A] @ dateHeader @ '';localhost;''
              @ contentHash)
             signature secretKey (getAlgorithm algorithm)) = (True, None) \<and>
      (\<forall>r. Method r = method \<and> URL_Path r = path \<and> URL_RawQuery r = []
            \<and> Host r = ''localhost'' \<longrightarrow>
         fst (verifySignature hmacSum logger (createStringToSign r body dateHeader contentHash)
                signature secretKey (getAlgorithm algorithm)) = (True, None)))"
  by (auto simp: CreateHMACSignature_def verifySignature_def createStringToSign_def Let_def)

theorem sign_then_verify_witness:
  "DecodeString ''c2VjcmV0'' = Some ''secret'' \<and>
   CreateHMACSignature example_sum ''GET'' ''/api/v1/users'' [] example_date example_hash
     ''web'' ''c2VjcmV0'' ''sha256'' = Inr (example_signature example_date) \<and>
   fst (verifySignature example_sum True
          (createStringToSign (example_request Map.empty) [] example_date example_hash)
          (example_signature example_date) ''c2VjcmV0'' (getAlgorithm ''sha256''))
     = (True, None)"
proof -
  note t = sign_then_verify [OF decode_secret_fixture, of example_sum "''GET''"
      "''/api/v1/users''" "[]" example_date example_hash "''web''" "''sha256''" True]
  have c: "CreateHMACSignature example_sum ''GET'' ''/api/v1/users'' [] example_date
             example_hash ''web'' ''c2VjcmV0'' ''sha256'' = Inr (example_signature example_date)"
    using t by (simp add: example_signature_def getAlgorithm_def del: EncodeToString.simps)
  with t have "\<forall>r. Method r = ''GET'' \<and> URL_Path r = ''/api/v1/users'' \<and> URL_RawQuery r = []
                \<and> Host r = ''localhost'' \<longrightarrow>
             fst (verifySignature example_sum True
                    (createStringToSign r [] example_date example_hash)
                    (example_signature example_date) ''c2VjcmV0'' (getAlgorithm ''sha256''))
               = (True, None)"
    by blast
  then have "fst (verifySignature example_sum True
             (createStringToSign (example_request Map.empty) [] example_date example_hash)
             (example_signature example_date) ''c2VjcmV0'' (getAlgorithm ''sha256''))
           = (True, None)"
    by (simp add: example_request_def)
  with c show ?thesis
    by (simp add: decode_secret_fixture)
qed

section \<open>The canonical string\<close>

text \<open>
  Claim C2. The string \<^verbatim>\<open>createStringToSign\<close> returns is the method, a line feed, the
  path, then a question mark and the raw query exactly when the raw query is not
  empty, a line feed, and the date, the host and the content hash with one semicolon
  between them; every part is copied byte for byte. The date and the content hash
  \<^verbatim>\<open>validateHMACSignature\<close> passes are the values of the \<^verbatim>\<open>Date\<close> and \<^verbatim>\<open>x-content-hmac\<close>
  headers: a request that reaches the verification is accepted exactly when its
  signature is the encoded digest of that string.
\<close>

theorem createStringToSign_exact:
  "(URL_RawQuery r = [] \<longrightarrow>
      createStringToSign r body dateHeader contentHash
        = Method r @ [CHR 0x0A] @ URL_Path r @ [CHR 0x0A]
          @ dateHeader @ [CHR '';''] @ Host r @ [CHR '';''] @ contentHash) \<and>
   (URL_RawQuery r \<noteq> [] \<longrightarrow>
      createStringToSign r body dateHeader contentHash
        = Method r @ [CHR 0x0A] @ URL_Path r @ [CHR ''?''] @ URL_RawQuery r @ [CHR 0x0A]
          @ dateHeader @ [CHR '';''] @ Host r @ [CHR '';''] @ contentHash) \<and>
   (parseAuthorizationHeader (Header_Get (Header r) ''Authorization'')
      = Inr (credential, signature) \<and>
    Header_Get (Header r) ''Date'' \<noteq> [] \<and>
    Header_Get (Header r) ''x-content-hmac'' \<noteq> [] \<and>
    findClientSecret credential (GetClientSecrets cfg) = Inr clientSecret \<and>
    checkRouteAccess credential (URL_Path r) (GetRouteRights cfg) = None \<and>
    Body r = Reader body False \<and>
    DecodeString clientSecret = Some secretBytes \<longrightarrow>
      (fst (validateHMACSignature hmacSum logger r cfg) = None \<longleftrightarrow>
       signature = EncodeToString
         (hmacSum (getAlgorithm (GetAlgorithm cfg)) secretBytes
            (Method r @ [CHR 0x0A] @ URL_Path r
             @ (if URL_RawQuery r = [] then [] else [CHR ''?''] @ URL_RawQuery r)
             @ [CHR 0x0A] @ Header_Get (Header r) ''Date'' @ [CHR '';''] @ Host r @ [CHR '';'']
             @ Header_Get (Header r) ''x-content-hmac''))))"
proof -
  have s: "createStringToSign r body dateHeader contentHash
      = Method r @ [CHR 0x0A] @ URL_Path r
        @ (if URL_RawQuery r = [] then [] else [CHR ''?''] @ URL_RawQuery r)
        @ [CHR 0x0A] @ dateHeader @ [CHR '';''] @ Host r @ [CHR '';''] @ contentHash"
    for dateHeader contentHash
    by (simp add: createStringToSign_def Let_def)
  show ?thesis
    using validate_accepts_iff [of r credential signature cfg clientSecret body secretBytes
        hmacSum logger]
    by (simp add: s)
qed

theorem createStringToSign_exact_witness:
  "createStringToSign (example_request Map.empty) [] example_date example_hash
     = ''GET'' @ [CHR 0x0A] @ ''/api/v1/users'' @ [CHR 0x0A]
       @ ''Mon, 02 Jan 2006 15:04:05 GMT;localhost;47DEQpj8HBSa+/TImW+5JCeuQeRkm5NMpJWZG3hSuFU='' \<and>
   createStringToSign ((example_request Map.empty)\<lparr>URL_RawQuery := ''Name=A b&x=%41''\<rparr>) []
       example_date example_hash
     = ''GET'' @ [CHR 0x0A] @ ''/api/v1/users?Name=A b&x=%41'' @ [CHR 0x0A]
       @ ''Mon, 02 Jan 2006 15:04:05 GMT;localhost;47DEQpj8HBSa+/TImW+5JCeuQeRkm5NMpJWZG3hSuFU='' \<and>
   fst (validateHMACSignature example_sum True (example_signed example_date)
          (example_config True)) = None"
proof -
  let ?r = "example_signed example_date"
  have 1: "createStringToSign (example_request Map.empty) [] example_date example_hash
     = ''GET'' @ [CHR 0x0A] @ ''/api/v1/users'' @ [CHR 0x0A]
       @ ''Mon, 02 Jan 2006 15:04:05 GMT;localhost;47DEQpj8HBSa+/TImW+5JCeuQeRkm5NMpJWZG3hSuFU=''"
    using createStringToSign_exact [where r = "example_request Map.empty" and body = "[]"
        and dateHeader = example_date and contentHash = example_hash]
    by (simp add: example_request_def example_date_def example_hash_def)
  have 2: "createStringToSign ((example_request Map.empty)\<lparr>URL_RawQuery := ''Name=A b&x=%41''\<rparr>)
       [] example_date example_hash
     = ''GET'' @ [CHR 0x0A] @ ''/api/v1/users?Name=A b&x=%41'' @ [CHR 0x0A]
       @ ''Mon, 02 Jan 2006 15:04:05 GMT;localhost;47DEQpj8HBSa+/TImW+5JCeuQeRkm5NMpJWZG3hSuFU=''"
    using createStringToSign_exact
        [where r = "(example_request Map.empty)\<lparr>URL_RawQuery := ''Name=A b&x=%41''\<rparr>"
         and body = "[]" and dateHeader = example_date and contentHash = example_hash]
    by (simp add: example_request_def example_date_def example_hash_def)
  have f: "Method ?r = ''GET''" "URL_Path ?r = ''/api/v1/users''" "URL_RawQuery ?r = []"
    "Host ?r = ''localhost''" "Body ?r = Reader [] False"
    "Header ?r = example_headers (example_authorization example_date) example_date example_hash"
    by (simp_all add: example_signed_def example_request_def)
  have hyp: "parseAuthorizationHeader (Header_Get (Header ?r) ''Authorization'')
      = Inr (''web'', example_signature example_date) \<and>
    Header_Get (Header ?r) ''Date'' \<noteq> [] \<and>
    Header_Get (Header ?r) ''x-content-hmac'' \<noteq> [] \<and>
    findClientSecret ''web'' (GetClientSecrets (example_config True)) = Inr ''c2VjcmV0'' \<and>
    checkRouteAccess ''web'' (URL_Path ?r) (GetRouteRights (example_config True)) = None \<and>
    Body ?r = Reader [] False \<and>
    DecodeString ''c2VjcmV0'' = Some ''secret''"
    by (simp add: f Header_Get_example parse_example example_client_found example_route_allowed
          decode_secret_fixture example_nonempty)
  have a: "getAlgorithm (GetAlgorithm (example_config True)) = sha256_New"
    by (simp add: example_config_def getAlgorithm_def)
  have sig: "example_signature example_date = EncodeToString
         (example_sum (getAlgorithm (GetAlgorithm (example_config True))) ''secret''
            (Method ?r @ [CHR 0x0A] @ URL_Path ?r
             @ (if URL_RawQuery ?r = [] then [] else [CHR ''?''] @ URL_RawQuery ?r)
             @ [CHR 0x0A] @ Header_Get (Header ?r) ''Date'' @ [CHR '';''] @ Host ?r @ [CHR '';'']
             @ Header_Get (Header ?r) ''x-content-hmac''))"
    by (simp add: f a Header_Get_example example_signature_def del: EncodeToString.simps)
  from createStringToSign_exact [where r = ?r and credential = "''web''"
      and signature = "example_signature example_date" and cfg = "example_config True"
      and clientSecret = "''c2VjcmV0''" and body = "[]" and secretBytes = "''secret''"
      and hmacSum = example_sum and logger = True] hyp sig
  have 3: "fst (validateHMACSignature example_sum True ?r (example_config True)) = None"
    by blast
  from 1 2 3 show ?thesis by blast
qed

section \<open>The route authorizer\<close>

text \<open>
  Claim C3. \<^verbatim>\<open>checkRouteAccess\<close> allows (returns nil) when the table of route rights is
  empty; refuses with "has no route permissions" when the table is not empty and has
  no entry for the client; and otherwise allows exactly when one of the patterns of
  the client is \<^verbatim>\<open>*\<close> or a prefix of the path, byte for byte, refusing with "not
  authorized for route" when none is.
\<close>

theorem checkRouteAccess_decides:
  "(dom routeRights = {} \<longrightarrow> checkRouteAccess clientID route routeRights = None) \<and>
   (dom routeRights \<noteq> {} \<and> routeRights clientID = None \<longrightarrow>
      checkRouteAccess clientID route routeRights = Some (NoRoutePermissions clientID)) \<and>
   (\<forall>allowedRoutes. dom routeRights \<noteq> {} \<and> routeRights clientID = Some allowedRoutes \<longrightarrow>
      (checkRouteAccess clientID route routeRights = None
         \<longleftrightarrow> (\<exists>p \<in> set allowedRoutes. p = ''*'' \<or> prefix p route)) \<and>
      (checkRouteAccess clientID route routeRights \<noteq> None
         \<longrightarrow> checkRouteAccess clientID route routeRights
               = Some (NotAuthorizedForRoute clientID route)))"
  by (auto simp: checkRouteAccess_def routeAllowed_def strings_HasPrefix_def list_ex_iff)

theorem checkRouteAccess_decides_witness:
  "checkRouteAccess ''web'' ''/api/v1/users'' Map.empty = None \<and>
   checkRouteAccess ''web'' ''/api/v1/users'' [''admin'' \<mapsto> [''*'']]
     = Some (NoRoutePermissions ''web'') \<and>
   checkRouteAccess ''web'' ''/api/v1/users/7'' [''web'' \<mapsto> [''/health'', ''/api/v1/users'']]
     = None \<and>
   checkRouteAccess ''admin'' ''/anything'' [''admin'' \<mapsto> [''*'']] = None \<and>
   checkRouteAccess ''web'' ''/API/v1/users'' [''web'' \<mapsto> [''/health'', ''/api/v1/users'']]
     = Some (NotAuthorizedForRoute ''web'' ''/API/v1/users'')"
  using checkRouteAccess_decides [of Map.empty "''web''" "''/api/v1/users''"]
        checkRouteAccess_decides [of "[''admin'' \<mapsto> [''*'']]" "''web''" "''/api/v1/users''"]
        checkRouteAccess_decides [of "[''web'' \<mapsto> [''/health'', ''/api/v1/users'']]" "''web''"
           "''/api/v1/users/7''"]
        checkRouteAccess_decides [of "[''admin'' \<mapsto> [''*'']]" "''admin''" "''/anything''"]
        checkRouteAccess_decides [of "[''web'' \<mapsto> [''/health'', ''/api/v1/users'']]" "''web''"
           "''/API/v1/users''"]
  by simp

section \<open>The header parser\<close>

text \<open>
  Claim C5, as the code has it. When the \<^verbatim>\<open>Authorization\<close> header is absent or its value
  is empty, validation fails with "missing Authorization header". Otherwise it fails
  with "invalid Authorization header" exactly when splitting the value at spaces does
  not give exactly two segments, or when the value of \<^verbatim>\<open>Credential=\<close> or of \<^verbatim>\<open>Signature=\<close>
  is empty, the value being what follows the key in the last parameter, between
  ampersands, that starts with it, and empty when there is no such parameter.
  Otherwise the parser succeeds and returns these two values, and validation does not
  fail on this header.
\<close>

theorem authorization_header_parsed:
  "let authHeader = Header_Get (Header r) ''Authorization'';
       parts = strings_Split authHeader (CHR '' '');
       params = strings_Split (parts ! 1) (CHR ''&'');
       credential = paramValue ''Credential='' params;
       signature = paramValue ''Signature='' params;
       result = validateHMACSignature hmacSum logger r cfg
   in (authHeader = [] \<longrightarrow> result = (Some MissingAuthorizationHeader, r, [])) \<and>
      (authHeader \<noteq> [] \<and> length parts \<noteq> 2 \<longrightarrow>
         parseAuthorizationHeader authHeader = Inl InvalidFormat \<and>
         result = (Some (InvalidAuthorizationHeader InvalidFormat), r, [])) \<and>
      (authHeader \<noteq> [] \<and> length parts = 2 \<and> (credential = [] \<or> signature = []) \<longrightarrow>
         parseAuthorizationHeader authHeader = Inl MissingCredentialOrSignature \<and>
         result = (Some (InvalidAuthorizationHeader MissingCredentialOrSignature), r, [])) \<and>
      (authHeader \<noteq> [] \<and> length parts = 2 \<and> credential \<noteq> [] \<and> signature \<noteq> [] \<longrightarrow>
         parseAuthorizationHeader authHeader = Inr (credential, signature) \<and>
         fst result \<noteq> Some MissingAuthorizationHeader \<and>
         (\<forall>e. fst result \<noteq> Some (InvalidAuthorizationHeader e)))"
  unfolding Let_def
  using validate_missing_authorization [of r hmacSum logger cfg]
        validate_malformed_authorization [of r _ hmacSum logger cfg]
        validate_parsed_authorization [of r _ _ hmacSum logger cfg]
  by (simp add: parseAuthorizationHeader_paramValue Let_def)

theorem authorization_header_parsed_witness:
  "fst (validateHMACSignature example_sum True (example_request Map.empty) (example_config True))
     = Some MissingAuthorizationHeader \<and>
   fst (validateHMACSignature example_sum True
          (example_request [''Authorization'' \<mapsto> [''garbage'']]) (example_config True))
     = Some (InvalidAuthorizationHeader InvalidFormat) \<and>
   fst (validateHMACSignature example_sum True
          (example_request [''Authorization'' \<mapsto> [''HMAC-SHA256 Signature=abc'']])
          (example_config True))
     = Some (InvalidAuthorizationHeader MissingCredentialOrSignature) \<and>
   parseAuthorizationHeader ''HMAC-SHA256 Credential=web&SignedHeaders=date&Signature=abc''
     = Inr (''web'', ''abc'')"
  using authorization_header_parsed
          [of "example_request Map.empty" example_sum True "example_config True"]
        authorization_header_parsed
          [of "example_request [''Authorization'' \<mapsto> [''garbage'']]" example_sum True
              "example_config True"]
        authorization_header_parsed
          [of "example_request [''Authorization'' \<mapsto> [''HMAC-SHA256 Signature=abc'']]"
              example_sum True "example_config True"]
        authorization_header_parsed
          [of "example_request [''Authorization'' \<mapsto>
                 [''HMAC-SHA256 Credential=web&SignedHeaders=date&Signature=abc'']]"
              example_sum True "example_config True"]
  by (simp add: Let_def example_request_def Header_Get_Authorization paramValue_def)

text \<open>
  The claim as it was stated fails twice. A header with two segments and both
  parameters, the credential empty, is refused although a parameter carrying
  \<^verbatim>\<open>Credential=\<close> and one carrying \<^verbatim>\<open>Signature=\<close> are found. And a header that is present
  with an empty value is reported as missing, not as malformed.
\<close>

theorem authorization_header_parsed_counterexample:
  "(length (strings_Split ''HMAC-SHA256 Credential=&Signature=abc'' (CHR '' '')) = 2 \<and>
    strings_Split (strings_Split ''HMAC-SHA256 Credential=&Signature=abc'' (CHR '' '') ! 1)
      (CHR ''&'') = [''Credential='', ''Signature=abc''] \<and>
    strings_HasPrefix ''Credential='' ''Credential='' \<and>
    strings_HasPrefix ''Signature=abc'' ''Signature='' \<and>
    parseAuthorizationHeader ''HMAC-SHA256 Credential=&Signature=abc''
      = Inl MissingCredentialOrSignature) \<and>
   (Header (example_request [''Authorization'' \<mapsto> [[]]]) ''Authorization'' = Some [[]] \<and>
    fst (validateHMACSignature example_sum True (example_request [''Authorization'' \<mapsto> [[]]])
           (example_config True))
      = Some MissingAuthorizationHeader)"
proof (rule conjI)
  show "length (strings_Split ''HMAC-SHA256 Credential=&Signature=abc'' (CHR '' '')) = 2 \<and>
    strings_Split (strings_Split ''HMAC-SHA256 Credential=&Signature=abc'' (CHR '' '') ! 1)
      (CHR ''&'') = [''Credential='', ''Signature=abc''] \<and>
    strings_HasPrefix ''Credential='' ''Credential='' \<and>
    strings_HasPrefix ''Signature=abc'' ''Signature='' \<and>
    parseAuthorizationHeader ''HMAC-SHA256 Credential=&Signature=abc''
      = Inl MissingCredentialOrSignature"
    by code_simp
  show "Header (example_request [''Authorization'' \<mapsto> [[]]]) ''Authorization'' = Some [[]] \<and>
    fst (validateHMACSignature example_sum True (example_request [''Authorization'' \<mapsto> [[]]])
           (example_config True))
      = Some MissingAuthorizationHeader"
    by (simp add: example_request_def validate_missing_authorization Header_Get_Authorization)
qed

section \<open>The order of the header checks\<close>

text \<open>
  Claim C6, as the code has it. \<^verbatim>\<open>validateHMACSignature\<close> looks at the \<^verbatim>\<open>Authorization\<close>
  header and parses its parameters first. For every request whose \<^verbatim>\<open>Authorization\<close>
  header parses, a missing \<^verbatim>\<open>Date\<close> header is reported as "missing Date header", and
  with a date a missing \<^verbatim>\<open>x-content-hmac\<close> header as "missing x-content-hmac header",
  before the credential is looked up, the route is checked, the body is read or the
  signature is verified: the result does not depend on the configuration or on the
  digest, the request is returned as it was and nothing is logged.
\<close>

theorem missing_headers_after_authorization:
  "parseAuthorizationHeader (Header_Get (Header r) ''Authorization'') = Inr (credential, signature) \<Longrightarrow>
   (Header_Get (Header r) ''Date'' = [] \<longrightarrow>
      validateHMACSignature hmacSum logger r cfg = (Some MissingDateHeader, r, [])) \<and>
   (Header_Get (Header r) ''Date'' \<noteq> [] \<and> Header_Get (Header r) ''x-content-hmac'' = [] \<longrightarrow>
      validateHMACSignature hmacSum logger r cfg = (Some MissingContentHmacHeader, r, []))"
proof -
  assume p: "parseAuthorizationHeader (Header_Get (Header r) ''Authorization'')
               = Inr (credential, signature)"
  then have "Header_Get (Header r) ''Authorization'' \<noteq> []"
    by (auto simp: parse_empty)
  with p show ?thesis
    by (simp add: validateHMACSignature_def Let_def)
qed

theorem missing_headers_after_authorization_witness:
  "validateHMACSignature example_sum True
     (example_request [''Authorization'' \<mapsto>
        [''HMAC-SHA256 Credential=web&SignedHeaders=date&Signature=abc'']])
     (example_config True)
   = (Some MissingDateHeader,
      example_request [''Authorization'' \<mapsto>
        [''HMAC-SHA256 Credential=web&SignedHeaders=date&Signature=abc'']], []) \<and>
   validateHMACSignature example_sum True
     (example_request [''Authorization'' \<mapsto>
        [''HMAC-SHA256 Credential=web&SignedHeaders=date&Signature=abc''],
        ''Date'' \<mapsto> [example_date]])
     (example_config True)
   = (Some MissingContentHmacHeader,
      example_request [''Authorization'' \<mapsto>
        [''HMAC-SHA256 Credential=web&SignedHeaders=date&Signature=abc''],
        ''Date'' \<mapsto> [example_date]], [])"
  using missing_headers_after_authorization
          [of "example_request [''Authorization'' \<mapsto>
                 [''HMAC-SHA256 Credential=web&SignedHeaders=date&Signature=abc'']]"
              "''web''" "''abc''" example_sum True "example_config True"]
        missing_headers_after_authorization
          [of "example_request [''Authorization'' \<mapsto>
                 [''HMAC-SHA256 Credential=web&SignedHeaders=date&Signature=abc''],
                 ''Date'' \<mapsto> [example_date]]"
              "''web''" "''abc''" example_sum True "example_config True"]
  by (simp add: example_request_def Header_Get_Authorization Header_Get_Date
        Header_Get_content_hmac parse_example_short example_date_def)

text \<open>
  The claim as it was stated fails: for a request with no \<^verbatim>\<open>Date\<close> header whose
  \<^verbatim>\<open>Authorization\<close> header has no credential, the parameters of the \<^verbatim>\<open>Authorization\<close>
  header are examined first and the failure is "invalid Authorization header", not a
  missing header.
\<close>

theorem missing_headers_after_authorization_counterexample:
  "Header_Get (Header (example_request [''Authorization'' \<mapsto> [''HMAC-SHA256 Signature=abc'']]))
     ''Date'' = [] \<and>
   validateHMACSignature example_sum True
     (example_request [''Authorization'' \<mapsto> [''HMAC-SHA256 Signature=abc'']])
     (example_config True)
   = (Some (InvalidAuthorizationHeader MissingCredentialOrSignature),
      example_request [''Authorization'' \<mapsto> [''HMAC-SHA256 Signature=abc'']], [])"
  by (simp add: example_request_def Header_Get_Authorization Header_Get_Date
        validate_malformed_authorization parse_example_no_credential)

section \<open>The middleware when authentication is not required\<close>

text \<open>
  Claim C7, as the code has it. When the configuration does not require
  authentication, \<^verbatim>\<open>HMACAuthMiddleware\<close> calls the downstream handler on the request as
  validation left it, whether validation failed or not, and its answer is the answer
  of the handler; a request whose body can be read reaches the handler unchanged. A
  failure is logged as one warning when \<^verbatim>\<open>logging.New\<close> gave the middleware a logger,
  and not at all when it did not. \<^verbatim>\<open>SetupHMACMiddleware\<close> installs no middleware for
  such a configuration.
\<close>

theorem fail_open_forwards:
  "\<not> IsRequired cfg \<Longrightarrow>
   (case validateHMACSignature hmacSum logger r cfg of
      (outcome, r', entries) \<Rightarrow>
        (\<not> broken (Body r) \<longrightarrow> r' = r) \<and>
        fst (HMACAuthMiddleware hmacSum logger cfg handler r)
          = fst ((handler :: 'a handler) r') \<and>
        snd (HMACAuthMiddleware hmacSum logger cfg handler r)
          = entries
            @ (case outcome of
                 None \<Rightarrow> []
               | Some err \<Rightarrow> if logger then [Warn_validation err] else [])
            @ snd (handler r')) \<and>
   fst (SetupHMACMiddleware hmacSum logger (e :: ('a handler \<Rightarrow> 'a handler) list) cfg
          appLogger) = e"
proof -
  assume n: "\<not> IsRequired cfg"
  obtain outcome r' entries where
    v: "validateHMACSignature hmacSum logger r cfg = (outcome, r', entries)"
    by (cases "validateHMACSignature hmacSum logger r cfg") auto
  have k: "\<not> broken (Body r) \<longrightarrow> r' = r"
    using validate_keeps_request [of r hmacSum logger cfg] v by simp
  from n v k show ?thesis
    by (simp add: HMACAuthMiddleware_def SetupHMACMiddleware_def
          split: prod.splits option.splits)
qed

theorem fail_open_forwards_witness:
  "\<not> IsRequired (example_config False) \<and>
   HMACAuthMiddleware example_sum True (example_config False) example_handler
     (example_request Map.empty)
   = (Downstream (), [Warn_validation MissingAuthorizationHeader]) \<and>
   HMACAuthMiddleware example_sum True (example_config False) example_handler
     (example_signed example_date)
   = (Downstream (), snd (snd (validateHMACSignature example_sum True
                                  (example_signed example_date) (example_config False)))) \<and>
   fst (SetupHMACMiddleware example_sum True [] (example_config False) True) = ([] :: (unit handler \<Rightarrow> unit handler) list)"
proof -
  have n: "\<not> IsRequired (example_config False)"
    by (simp add: example_config_def)
  have m: "validateHMACSignature example_sum True (example_request Map.empty)
             (example_config False)
           = (Some MissingAuthorizationHeader, example_request Map.empty, [])"
    by (simp add: validate_missing_authorization Header_Get_Authorization example_request_def)
  have a: "fst (validateHMACSignature example_sum True (example_signed example_date)
             (example_config False)) = None"
    by (rule validate_example_accepted) (rule parse_example, simp add: example_date_def)
  from fail_open_forwards [OF n, where hmacSum = example_sum and logger = True
      and r = "example_request Map.empty" and handler = example_handler and e = "[]"
      and appLogger = True]
  have 1: "HMACAuthMiddleware example_sum True (example_config False) example_handler
     (example_request Map.empty)
   = (Downstream (), [Warn_validation MissingAuthorizationHeader])"
    and 3: "fst (SetupHMACMiddleware example_sum True [] (example_config False) True)
              = ([] :: (unit handler \<Rightarrow> unit handler) list)"
    by (simp_all add: m example_handler_def prod_eq_iff)
  from fail_open_forwards [OF n, where hmacSum = example_sum and logger = True
      and r = "example_signed example_date" and handler = example_handler and e = "[]"
      and appLogger = True] a
  have 2: "HMACAuthMiddleware example_sum True (example_config False) example_handler
     (example_signed example_date)
   = (Downstream (), snd (snd (validateHMACSignature example_sum True
                                  (example_signed example_date) (example_config False))))"
    by (simp add: example_handler_def prod_eq_iff split: prod.splits)
  from n 1 2 3 show ?thesis by blast
qed

text \<open>
  The claim as it was stated fails when the middleware gets no logger: the request
  without an \<^verbatim>\<open>Authorization\<close> header fails validation and goes on to the handler, and
  no warning is recorded.
\<close>

theorem fail_open_forwards_counterexample:
  "\<not> IsRequired (example_config False) \<and>
   fst (validateHMACSignature example_sum False (example_request Map.empty)
          (example_config False)) = Some MissingAuthorizationHeader \<and>
   HMACAuthMiddleware example_sum False (example_config False) example_handler
     (example_request Map.empty) = (Downstream (), [])"
  by (simp add: HMACAuthMiddleware_def validate_missing_authorization Header_Get_Authorization
        example_request_def example_config_def example_handler_def)

section \<open>Where the algorithm comes from\<close>

text \<open>
  Claim C8. The hash function of the verification is \<^verbatim>\<open>getAlgorithm\<close> of the configured
  algorithm name; the first segment of the \<^verbatim>\<open>Authorization\<close> header, the scheme token,
  is split off and never read. Two requests that differ only in that token (a token
  has no space) get the same error or acceptance from \<^verbatim>\<open>validateHMACSignature\<close>, the
  same log entries and the same body.
\<close>

theorem scheme_token_ignored:
  assumes "CHR '' '' \<notin> set scheme1" and "CHR '' '' \<notin> set scheme2"
  shows
   "let r1 = r\<lparr>Header := (Header r)(''Authorization'' \<mapsto> (scheme1 @ '' '' @ params) # others)\<rparr>;
        r2 = r\<lparr>Header := (Header r)(''Authorization'' \<mapsto> (scheme2 @ '' '' @ params) # others)\<rparr>;
        v1 = validateHMACSignature hmacSum logger r1 cfg;
        v2 = validateHMACSignature hmacSum logger r2 cfg
    in fst v1 = fst v2 \<and> snd (snd v1) = snd (snd v2) \<and> Body (fst (snd v1)) = Body (fst (snd v2))"
proof -
  have p: "parseAuthorizationHeader (scheme1 @ CHR '' '' # params)
             = parseAuthorizationHeader (scheme2 @ CHR '' '' # params)"
    using assms by (rule parse_ignores_scheme)
  show ?thesis
    unfolding Let_def
    by (rule validate_cong_authorization)
       (simp_all add: Header_Get_Authorization Header_Get_Date Header_Get_content_hmac p)
qed

theorem scheme_token_ignored_witness:
  "CHR '' '' \<notin> set ''HMAC-SHA256'' \<and> CHR '' '' \<notin> set ''HMAC-SHA512'' \<and>
   fst (validateHMACSignature example_sum True
          ((example_signed example_date)
             \<lparr>Header := (Header (example_signed example_date))
                (''Authorization'' \<mapsto> [''HMAC-SHA256'' @ '' '' @ example_params example_date])\<rparr>)
          (example_config True))
   = fst (validateHMACSignature example_sum True
          ((example_signed example_date)
             \<lparr>Header := (Header (example_signed example_date))
                (''Authorization'' \<mapsto> [''HMAC-SHA512'' @ '' '' @ example_params example_date])\<rparr>)
          (example_config True))"
proof -
  have a: "CHR '' '' \<notin> set ''HMAC-SHA256''" and b: "CHR '' '' \<notin> set ''HMAC-SHA512''"
    by simp_all
  from scheme_token_ignored [OF a b, where r = "example_signed example_date"
      and params = "example_params example_date" and others = "[]" and hmacSum = example_sum
      and logger = True and cfg = "example_config True"]
  show ?thesis
    using a b unfolding Let_def by blast
qed

section \<open>The body after acceptance\<close>

text \<open>
  Claim C9. When \<^verbatim>\<open>validateHMACSignature\<close> accepts a request, the body was read to its
  end without error, the request it leaves differs from the one it got only in the
  body, which is a buffer over the bytes read, so that reading it gives the same
  bytes again; and the middleware calls the downstream handler on that request.
\<close>

theorem accepted_body_restored:
  assumes "validateHMACSignature hmacSum logger r cfg = (None, r', entries)"
  shows "\<exists>body. io_ReadAll (Body r) = (body, False, Reader [] False) \<and>
           r' = r\<lparr>Body := bytes_NewBuffer body\<rparr> \<and>
           io_ReadAll (Body r') = (body, False, Reader [] False) \<and>
           HMACAuthMiddleware hmacSum logger cfg handler r
             = (fst (handler r'), entries @ snd (handler r'))"
proof -
  have nb: "\<not> broken (Body r)"
    using assms by (rule validate_accepted_body)
  then obtain body where b: "Body r = Reader body False"
    by (cases "Body r") auto
  from nb have "fst (snd (validateHMACSignature hmacSum logger r cfg)) = r"
    by (rule validate_keeps_request)
  with assms have r': "r' = r" by simp
  have mw: "HMACAuthMiddleware hmacSum logger cfg handler r
              = (fst (handler r'), entries @ snd (handler r'))"
    using assms by (simp add: HMACAuthMiddleware_def split: prod.splits)
  from b r' mw show ?thesis
    by (simp add: bytes_NewBuffer_def)
qed

theorem accepted_body_restored_witness:
  "fst (validateHMACSignature example_sum True
          ((example_signed example_date)\<lparr>Body := Reader ''{}'' False\<rparr>) (example_config True))
     = None \<and>
   io_ReadAll (Body (fst (snd (validateHMACSignature example_sum True
          ((example_signed example_date)\<lparr>Body := Reader ''{}'' False\<rparr>) (example_config True)))))
     = (''{}'', False, Reader [] False)"
proof -
  let ?r = "(example_signed example_date)\<lparr>Body := Reader ''{}'' False\<rparr>"
  let ?v = "validateHMACSignature example_sum True ?r (example_config True)"
  have a: "fst ?v = None"
    by (rule validate_example_body_accepted) (rule parse_example, simp add: example_date_def)
  then have "?v = (None, fst (snd ?v), snd (snd ?v))"
    by (simp add: prod_eq_iff)
  from accepted_body_restored [OF this, of example_handler]
  obtain body where "io_ReadAll (Body ?r) = (body, False, Reader [] False)"
    and "io_ReadAll (Body (fst (snd ?v))) = (body, False, Reader [] False)"
    by blast
  with a show ?thesis by simp
qed

section \<open>The maximum age and the date\<close>

text \<open>
  Claim C10. The configured maximum age has no effect: validation and the middleware
  give the same result whatever its value. The \<^verbatim>\<open>Date\<close> header is only tested for
  being empty and copied into the string to sign: for every non-empty date, of any
  form, a request that passes the stages before the verification is accepted exactly
  when its signature is the encoded digest of the string to sign built with that date.
\<close>

theorem maxage_and_date_unchecked:
  "validateHMACSignature hmacSum logger r (cfg\<lparr>GetMaxAge := maxAge\<rparr>)
     = validateHMACSignature hmacSum logger r cfg \<and>
   HMACAuthMiddleware hmacSum logger (cfg\<lparr>GetMaxAge := maxAge\<rparr>) handler r
     = HMACAuthMiddleware hmacSum logger cfg handler r \<and>
   (date \<noteq> [] \<and>
    parseAuthorizationHeader (Header_Get (Header r) ''Authorization'') = Inr (credential, signature) \<and>
    Header_Get (Header r) ''x-content-hmac'' \<noteq> [] \<and>
    findClientSecret credential (GetClientSecrets cfg) = Inr clientSecret \<and>
    checkRouteAccess credential (URL_Path r) (GetRouteRights cfg) = None \<and>
    Body r = Reader body False \<and>
    DecodeString clientSecret = Some secretBytes \<longrightarrow>
      (fst (validateHMACSignature hmacSum logger
              (r\<lparr>Header := (Header r)(''Date'' \<mapsto> [date])\<rparr>) cfg) = None
       \<longleftrightarrow> signature = EncodeToString
             (hmacSum (getAlgorithm (GetAlgorithm cfg)) secretBytes
                (createStringToSign r body date (Header_Get (Header r) ''x-content-hmac'')))))"
proof (intro conjI impI)
  show v: "validateHMACSignature hmacSum logger r (cfg\<lparr>GetMaxAge := maxAge\<rparr>)
     = validateHMACSignature hmacSum logger r cfg"
    by (simp add: validateHMACSignature_def Let_def
          cong: if_cong sum.case_cong option.case_cong prod.case_cong)
  show "HMACAuthMiddleware hmacSum logger (cfg\<lparr>GetMaxAge := maxAge\<rparr>) handler r
     = HMACAuthMiddleware hmacSum logger cfg handler r"
    by (simp add: HMACAuthMiddleware_def v split: prod.splits option.splits)
next
  let ?r = "r\<lparr>Header := (Header r)(''Date'' \<mapsto> [date])\<rparr>"
  assume h: "date \<noteq> [] \<and>
    parseAuthorizationHeader (Header_Get (Header r) ''Authorization'') = Inr (credential, signature) \<and>
    Header_Get (Header r) ''x-content-hmac'' \<noteq> [] \<and>
    findClientSecret credential (GetClientSecrets cfg) = Inr clientSecret \<and>
    checkRouteAccess credential (URL_Path r) (GetRouteRights cfg) = None \<and>
    Body r = Reader body False \<and>
    DecodeString clientSecret = Some secretBytes"
  have a: "Header_Get ((Header r)(''Date'' \<mapsto> [date])) ''Authorization''
             = Header_Get (Header r) ''Authorization''"
    by (simp add: Header_Get_Authorization)
  have c: "Header_Get ((Header r)(''Date'' \<mapsto> [date])) ''x-content-hmac''
             = Header_Get (Header r) ''x-content-hmac''"
    by (simp add: Header_Get_content_hmac)
  have d: "Header_Get ((Header r)(''Date'' \<mapsto> [date])) ''Date'' = date"
    by (simp add: Header_Get_Date)
  have "validateHMACSignature hmacSum logger ?r cfg =
     (case verifySignature hmacSum logger
             (createStringToSign ?r body (Header_Get (Header ?r) ''Date'')
                (Header_Get (Header ?r) ''x-content-hmac''))
             signature clientSecret (getAlgorithm (GetAlgorithm cfg)) of
        ((ok, err), entries) \<Rightarrow>
          (if ok then None else Some (InvalidHMACSignature err), ?r, entries))"
    by (rule validate_reaches_verification [where credential = credential])
       (use h in \<open>simp_all add: a c d\<close>)
  with h show "fst (validateHMACSignature hmacSum logger ?r cfg) = None
       \<longleftrightarrow> signature = EncodeToString
             (hmacSum (getAlgorithm (GetAlgorithm cfg)) secretBytes
                (createStringToSign r body date (Header_Get (Header r) ''x-content-hmac'')))"
    by (simp add: c d createStringToSign_Header verifySignature_def Let_def
         )
qed

theorem maxage_and_date_unchecked_witness:
  "validateHMACSignature example_sum True (example_signed ''yesterday'')
     ((example_config True)\<lparr>GetMaxAge := 0\<rparr>)
     = validateHMACSignature example_sum True (example_signed ''yesterday'') (example_config True) \<and>
   ''yesterday'' \<noteq> [] \<and>
   fst (validateHMACSignature example_sum True
          ((example_request (example_headers (example_authorization ''yesterday'') example_date
              example_hash))
             \<lparr>Header := (example_headers (example_authorization ''yesterday'') example_date
                           example_hash)(''Date'' \<mapsto> [''yesterday''])\<rparr>)
          (example_config True)) = None"
proof -
  let ?h = "example_headers (example_authorization ''yesterday'') example_date example_hash"
  let ?r = "example_request ?h"
  have h: "Header ?r = ?h"
    by (simp add: example_request_def)
  have hyp: "''yesterday'' \<noteq> [] \<and>
    parseAuthorizationHeader (Header_Get (Header ?r) ''Authorization'')
      = Inr (''web'', example_signature ''yesterday'') \<and>
    Header_Get (Header ?r) ''x-content-hmac'' \<noteq> [] \<and>
    findClientSecret ''web'' (GetClientSecrets (example_config True)) = Inr ''c2VjcmV0'' \<and>
    checkRouteAccess ''web'' (URL_Path ?r) (GetRouteRights (example_config True)) = None \<and>
    Body ?r = Reader [] False \<and>
    DecodeString ''c2VjcmV0'' = Some ''secret''"
    by (simp add: example_request_def Header_Get_example parse_example_yesterday
          example_client_found example_route_allowed decode_secret_fixture example_hash_def)
  have sig: "example_signature ''yesterday'' = EncodeToString
             (example_sum (getAlgorithm (GetAlgorithm (example_config True))) ''secret''
                (createStringToSign ?r [] ''yesterday'' (Header_Get (Header ?r) ''x-content-hmac'')))"
    by (simp add: example_signature_def example_string_to_sign Header_Get_example h
          example_config_def getAlgorithm_def del: EncodeToString.simps)
  from maxage_and_date_unchecked [where hmacSum = example_sum and logger = True
      and r = "example_signed ''yesterday''" and cfg = "example_config True" and maxAge = 0]
  have 1: "validateHMACSignature example_sum True (example_signed ''yesterday'')
     ((example_config True)\<lparr>GetMaxAge := 0\<rparr>)
     = validateHMACSignature example_sum True (example_signed ''yesterday'') (example_config True)"
    by blast
  from maxage_and_date_unchecked [where hmacSum = example_sum and logger = True
      and r = ?r and cfg = "example_config True" and date = "''yesterday''"
      and credential = "''web''" and signature = "example_signature ''yesterday''"
      and clientSecret = "''c2VjcmV0''" and body = "[]" and secretBytes = "''secret''"]
    hyp sig
  have 2: "fst (validateHMACSignature example_sum True
          (?r\<lparr>Header := (Header ?r)(''Date'' \<mapsto> [''yesterday''])\<rparr>)
          (example_config True)) = None"
    by blast
  from 1 2 h show ?thesis by simp
qed

end
